theory Spec2Isabelle
  imports Complex_Main
begin

section \<open>Call-cost accounting of the calling-agent dashboard (web\_app.py)\<close>

text \<open>
  The development embeds three functions of \<^verbatim>\<open>web_app.py\<close>:
  \<^verbatim>\<open>calculate_call_cost\<close> (the cost calculator), \<^verbatim>\<open>update_call\<close> (the
  \<^verbatim>\<open>PUT /api/calls/<id>\<close> handler) and \<^verbatim>\<open>get_costs\<close> (the
  \<^verbatim>\<open>GET /api/costs\<close> handler), together with the module globals
  \<^verbatim>\<open>PRICING\<close> and \<^verbatim>\<open>USD_TO_INR\<close> and the table \<^verbatim>\<open>calls\<close> they work on.
\<close>

subsection \<open>Numbers\<close>

text \<open>
  A Python \<^verbatim>\<open>float\<close> is modelled by the rational number it denotes in decimal
  notation: \<^verbatim>\<open>0.0059\<close> is \<open>59 / 10000\<close>, and \<^verbatim>\<open>*\<close>, \<^verbatim>\<open>+\<close>, \<^verbatim>\<open>/\<close> are the
  exact operations of \<^typ>\<open>rat\<close>. The representation error of binary64 is outside the
  model: where a decimal value lies exactly half-way between two roundings, the binary
  value Python holds lies slightly to one side of it, and the model rounds to the even
  neighbour. Python's unbounded \<^verbatim>\<open>int\<close> is \<^typ>\<open>int\<close>.

  \<^verbatim>\<open>round(x, ndigits)\<close> on a float rounds the value to the nearest multiple of
  \<open>10\<^sup>-\<^sup>n\<close>, a value exactly half-way between two multiples going to the even one.
\<close>

definition round_half_even :: "rat \<Rightarrow> int" where
  "round_half_even q =
     (let f = \<lfloor>q\<rfloor>; r = q - of_int f
      in if r < 1 / 2 then f
         else if 1 / 2 < r then f + 1
         else if even f then f else f + 1)"

definition round_py :: "rat \<Rightarrow> nat \<Rightarrow> rat" where
  "round_py x ndigits = of_int (round_half_even (x * 10 ^ ndigits)) / 10 ^ ndigits"

subsection \<open>Errors\<close>

text \<open>
  The exceptions of the modelled code: the \<^verbatim>\<open>KeyError\<close> of a dictionary subscript
  \<^verbatim>\<open>PRICING[k]\<close> whose key is missing; the \<^verbatim>\<open>TypeError\<close> of
  \<^verbatim>\<open>duration_seconds / 60.0\<close> on a duration that is not a number; the
  \<^verbatim>\<open>OverflowError\<close> of the \<^verbatim>\<open>sqlite3\<close> module when a statement is given a Python
  \<^verbatim>\<open>int\<close> that does not fit SQLite's 64-bit \<^verbatim>\<open>INTEGER\<close>.
\<close>

datatype py_error = KeyError string | TypeError | OverflowError

definition subscript :: "(string \<rightharpoonup> 'v) \<Rightarrow> string \<Rightarrow> py_error + 'v" where
  "subscript d k = (case d k of None \<Rightarrow> Inl (KeyError k) | Some v \<Rightarrow> Inr v)"

definition and_then :: "'e + 'a \<Rightarrow> ('a \<Rightarrow> 'e + 'b) \<Rightarrow> 'e + 'b" where
  "and_then r f = (case r of Inl e \<Rightarrow> Inl e | Inr v \<Rightarrow> f v)"

subsection \<open>Data\<close>

text \<open>
  The six cost columns of the table \<^verbatim>\<open>calls\<close> are also six of the seven keys of the
  dictionary \<^verbatim>\<open>calculate_call_cost\<close> returns, under the same names; both records
  extend \<open>cost_fields\<close>.
\<close>

record cost_fields =
  cost_livekit :: rat
  cost_stt :: rat
  cost_tts :: rat
  cost_llm :: rat
  total_cost_usd :: rat
  total_cost_inr :: rat

record call_cost = cost_fields +
  duration_minutes :: rat

text \<open>
  A timestamp is a number of seconds since the epoch, in UTC as SQLite's
  \<^verbatim>\<open>CURRENT_TIMESTAMP\<close> is. A row of \<^verbatim>\<open>calls\<close>: \<^verbatim>\<open>ended_at\<close> has no default and is
  \<^verbatim>\<open>NULL\<close> (\<open>None\<close>) until written. The columns \<^verbatim>\<open>id\<close> and \<^verbatim>\<open>notes\<close> are
  the fields \<open>row_id\<close> and \<open>row_notes\<close>. The column \<^verbatim>\<open>duration\<close> is declared
  \<^verbatim>\<open>INTEGER\<close>, which in SQLite is an affinity and not a constraint: a fractional number
  written to it is kept as it is, so the field holds the value of the number.
\<close>

type_synonym timestamp = nat

record call = cost_fields +
  row_id :: int
  phone_number :: string
  room_name :: "string option"
  dispatch_id :: "string option"
  status :: string
  duration :: rat
  row_notes :: "string option"
  created_at :: timestamp
  ended_at :: "timestamp option"

text \<open>
  The value of the key \<^verbatim>\<open>duration\<close> in a JSON body. A JSON number comes to Python
  as an \<^verbatim>\<open>int\<close> or as a \<^verbatim>\<open>float\<close> (the booleans are the integers 1 and 0 to
  Python's arithmetic and to \<^verbatim>\<open>sqlite3\<close>); \<open>Not_a_number\<close> is any other value:
  \<^verbatim>\<open>null\<close>, a string, an array, an object. A float is a finite one: the
  \<^verbatim>\<open>NaN\<close> and \<^verbatim>\<open>Infinity\<close> that Python's \<^verbatim>\<open>json\<close> also reads are left out.
\<close>

datatype number = Int_number int | Float_number rat

fun number_value :: "number \<Rightarrow> rat" where
  "number_value (Int_number n) = of_int n"
| "number_value (Float_number q) = q"

datatype json_value = Number number | Not_a_number

text \<open>
  The operand of \<^verbatim>\<open>duration_seconds / 60.0\<close>, the first statement of the calculator:
  the division raises \<^verbatim>\<open>TypeError\<close> unless it is a number.
\<close>

fun as_number :: "json_value \<Rightarrow> py_error + number" where
  "as_number (Number x) = Inr x"
| "as_number Not_a_number = Inl TypeError"

text \<open>
  The handler collects the \<^verbatim>\<open>SET\<close> clauses in the list \<^verbatim>\<open>updates\<close> and their
  parameters in \<^verbatim>\<open>values\<close>; an \<open>assignment\<close> is a clause with its parameter. The
  clause \<^verbatim>\<open>ended_at = CURRENT_TIMESTAMP\<close> takes its value from the clock when the
  statement runs.
\<close>

datatype assignment =
    Set_status string
  | Set_notes string
  | Set_duration number
  | Set_cost_livekit rat
  | Set_cost_stt rat
  | Set_cost_tts rat
  | Set_cost_llm rat
  | Set_total_cost_usd rat
  | Set_total_cost_inr rat
  | Set_ended_at_CURRENT_TIMESTAMP

text \<open>
  What a request does besides answering, in the order it does it: the call
  \<^verbatim>\<open>calculate_call_cost(data['duration'])\<close> (line 660), the statement
  \<^verbatim>\<open>cursor.execute("UPDATE calls SET ... WHERE id = ?", values)\<close> once it has run (line 683)
  and \<^verbatim>\<open>conn.commit()\<close> (line 684).
\<close>

datatype event =
    Calculated json_value
  | Executed "assignment list" int
  | Committed

text \<open>
  The state the three functions read and write: the two module globals, the rows of the
  table in rowid order, and the journal of the events so far.
\<close>

record world =
  PRICING :: "string \<rightharpoonup> rat"
  USD_TO_INR :: rat
  calls_table :: "call list"
  journal :: "event list"

text \<open>The values the module assigns to its globals when it is loaded (lines 29 to 39).\<close>

definition initial_PRICING :: "string \<rightharpoonup> rat" where
  "initial_PRICING =
     [''livekit_sip'' \<mapsto> 10 / 1000,
      ''deepgram_stt'' \<mapsto> 59 / 10000,
      ''deepgram_tts'' \<mapsto> 27 / 1000,
      ''groq_input'' \<mapsto> 59 / 100000000,
      ''groq_output'' \<mapsto> 79 / 100000000,
      ''avg_tokens_per_call'' \<mapsto> 2000]"

definition initial_USD_TO_INR :: rat where
  "initial_USD_TO_INR = 83"

definition as_loaded :: "world \<Rightarrow> bool" where
  "as_loaded w \<longleftrightarrow> PRICING w = initial_PRICING \<and> USD_TO_INR w = initial_USD_TO_INR"

subsection \<open>The cost calculator\<close>

text \<open>
  \<^verbatim>\<open>calculate_call_cost(duration_seconds)\<close>, statement by statement, on the value of a
  duration that is a number. The subscripts are evaluated in the order of the source, so the
  first missing key is the one reported. Python's division also raises
  \<^verbatim>\<open>OverflowError\<close> on an \<^verbatim>\<open>int\<close> beyond the range of binary64 (from about
  \<open>2\<^sup>1\<^sup>0\<^sup>2\<^sup>4\<close>); the exact arithmetic of the model has no such bound.
\<close>

definition calculate_call_cost :: "world \<Rightarrow> rat \<Rightarrow> py_error + call_cost" where
  "calculate_call_cost w duration_seconds =
     (let duration_minutes = duration_seconds / 60 in
      and_then (subscript (PRICING w) ''livekit_sip'') (\<lambda>livekit_sip.
      let cost_livekit = livekit_sip * duration_minutes in
      and_then (subscript (PRICING w) ''deepgram_stt'') (\<lambda>deepgram_stt.
      let cost_stt = deepgram_stt * duration_minutes in
      and_then (subscript (PRICING w) ''deepgram_tts'') (\<lambda>deepgram_tts.
      let cost_tts = deepgram_tts * duration_minutes in
      and_then (subscript (PRICING w) ''avg_tokens_per_call'') (\<lambda>avg_tokens.
      and_then (subscript (PRICING w) ''groq_input'') (\<lambda>groq_input.
      and_then (subscript (PRICING w) ''groq_output'') (\<lambda>groq_output.
      let cost_llm = avg_tokens * groq_input + avg_tokens * groq_output;
          total_usd = cost_livekit + cost_stt + cost_tts + cost_llm;
          total_inr = total_usd * USD_TO_INR w
      in Inr \<lparr>cost_livekit = round_py cost_livekit 6,
              cost_stt = round_py cost_stt 6,
              cost_tts = round_py cost_tts 6,
              cost_llm = round_py cost_llm 6,
              total_cost_usd = round_py total_usd 4,
              total_cost_inr = round_py total_inr 2,
              duration_minutes = round_py duration_minutes 2\<rparr>)))))))"

subsection \<open>The update handler\<close>

text \<open>
  The JSON body of \<^verbatim>\<open>PUT /api/calls/<id>\<close>, reduced to the three keys the handler reads.
  \<open>None\<close> is an absent key. The values of \<^verbatim>\<open>status\<close> and \<^verbatim>\<open>notes\<close> are taken to
  be text, as their columns are; the value of \<^verbatim>\<open>duration\<close> is any JSON value.
\<close>

record request_data =
  data_status :: "string option"
  data_notes :: "string option"
  data_duration :: "json_value option"

fun assign :: "timestamp \<Rightarrow> assignment \<Rightarrow> call \<Rightarrow> call" where
  "assign now (Set_status v) r = r\<lparr>status := v\<rparr>"
| "assign now (Set_notes v) r = r\<lparr>row_notes := Some v\<rparr>"
| "assign now (Set_duration v) r = r\<lparr>duration := number_value v\<rparr>"
| "assign now (Set_cost_livekit v) r = r\<lparr>cost_livekit := v\<rparr>"
| "assign now (Set_cost_stt v) r = r\<lparr>cost_stt := v\<rparr>"
| "assign now (Set_cost_tts v) r = r\<lparr>cost_tts := v\<rparr>"
| "assign now (Set_cost_llm v) r = r\<lparr>cost_llm := v\<rparr>"
| "assign now (Set_total_cost_usd v) r = r\<lparr>total_cost_usd := v\<rparr>"
| "assign now (Set_total_cost_inr v) r = r\<lparr>total_cost_inr := v\<rparr>"
| "assign now Set_ended_at_CURRENT_TIMESTAMP r = r\<lparr>ended_at := Some now\<rparr>"

text \<open>
  \<^verbatim>\<open>UPDATE calls SET ... WHERE id = ?\<close>: one statement, which rewrites every row with
  that id (at most one, \<^verbatim>\<open>id\<close> being the primary key) and no other.
\<close>

definition sql_update_calls :: "timestamp \<Rightarrow> assignment list \<Rightarrow> int \<Rightarrow> call list \<Rightarrow> call list" where
  "sql_update_calls now updates call_id rows =
     map (\<lambda>r. if row_id r = call_id then fold (assign now) updates r else r) rows"

text \<open>
  \<^verbatim>\<open>cursor.execute(statement, values)\<close>. Before the statement runs, \<^verbatim>\<open>sqlite3\<close>
  binds the parameters, and raises \<^verbatim>\<open>OverflowError\<close> for a Python \<^verbatim>\<open>int\<close> outside
  64 bits; the \<^verbatim>\<open>int\<close> parameters here are the duration, when it is one, and the id of
  the call. A \<^verbatim>\<open>float\<close> of any size is bound as it is.
\<close>

definition fits_int64 :: "int \<Rightarrow> bool" where
  "fits_int64 n \<longleftrightarrow> - (2 ^ 63) \<le> n \<and> n < 2 ^ 63"

fun bindable :: "assignment \<Rightarrow> bool" where
  "bindable (Set_duration (Int_number n)) = fits_int64 n"
| "bindable a = True"

definition execute_update :: "timestamp \<Rightarrow> assignment list \<Rightarrow> int \<Rightarrow> call list \<Rightarrow> py_error + call list" where
  "execute_update now updates call_id rows =
     (if list_all bindable updates \<and> fits_int64 call_id
      then Inr (sql_update_calls now updates call_id rows)
      else Inl OverflowError)"

text \<open>
  The two responses of the handler: \<^verbatim>\<open>{'success': True, 'message': 'Call updated'}\<close>,
  and \<^verbatim>\<open>{'success': False, 'error': str(e)}\<close> with status 500 from the
  \<^verbatim>\<open>except\<close> clause.
\<close>

datatype update_response = Call_updated | Error_500 py_error

definition terminal_statuses :: "string list" where
  "terminal_statuses = [''completed'', ''failed'', ''no_answer'']"

text \<open>The test \<^verbatim>\<open>data.get('status') in ['completed', 'failed', 'no_answer']\<close>.\<close>

definition terminal_status_given :: "request_data \<Rightarrow> bool" where
  "terminal_status_given data =
     (case data_status data of Some v \<Rightarrow> v \<in> set terminal_statuses | None \<Rightarrow> False)"

text \<open>
  The clauses and parameters a duration adds to \<^verbatim>\<open>updates\<close> and \<^verbatim>\<open>values\<close>
  (lines 656 to 676).
\<close>

definition duration_clauses :: "number \<Rightarrow> call_cost \<Rightarrow> assignment list" where
  "duration_clauses x costs =
     [Set_duration x,
      Set_cost_livekit (cost_livekit costs),
      Set_cost_stt (cost_stt costs),
      Set_cost_tts (cost_tts costs),
      Set_cost_llm (cost_llm costs),
      Set_total_cost_usd (total_cost_usd costs),
      Set_total_cost_inr (total_cost_inr costs)]"

text \<open>
  \<^verbatim>\<open>update_call(call_id)\<close>. \<open>now\<close> is the reading of the database clock. An exception,
  of the calculator or of the binding, leaves the \<^verbatim>\<open>try\<close> block before any statement
  has run, so the table is as it was. With no clause collected nothing is executed and
  nothing committed.
\<close>

definition update_call :: "int \<Rightarrow> request_data \<Rightarrow> timestamp \<Rightarrow> world \<Rightarrow> update_response \<times> world" where
  "update_call call_id data now w =
     (let updates_status = (case data_status data of Some v \<Rightarrow> [Set_status v] | None \<Rightarrow> []);
          updates_notes = updates_status @ (case data_notes data of Some v \<Rightarrow> [Set_notes v] | None \<Rightarrow> []);
          w_called = (case data_duration data of
                        None \<Rightarrow> w
                      | Some d \<Rightarrow> w\<lparr>journal := journal w @ [Calculated d]\<rparr>)
      in case (case data_duration data of
                 None \<Rightarrow> Inr updates_notes
               | Some d \<Rightarrow>
                   and_then (as_number d) (\<lambda>x.
                   and_then (calculate_call_cost w (number_value x)) (\<lambda>costs.
                     Inr (updates_notes @ duration_clauses x costs))))
         of Inl e \<Rightarrow> (Error_500 e, w_called)
          | Inr updates_duration \<Rightarrow>
              (let updates = updates_duration @
                     (if terminal_status_given data
                      then [Set_ended_at_CURRENT_TIMESTAMP] else [])
               in if updates \<noteq> []
                  then (case execute_update now updates call_id (calls_table w_called) of
                          Inl e \<Rightarrow> (Error_500 e, w_called)
                        | Inr rows \<Rightarrow>
                            (Call_updated,
                             w_called\<lparr>calls_table := rows,
                                       journal := journal w_called @ [Executed updates call_id, Committed]\<rparr>))
                  else (Call_updated, w_called)))"

text \<open>
  The tables the database goes through while the events of a request happen: the table
  before, and the table after each statement executed.
\<close>

fun table_states :: "timestamp \<Rightarrow> call list \<Rightarrow> event list \<Rightarrow> call list list" where
  "table_states now rows [] = [rows]"
| "table_states now rows (Executed updates call_id # es) =
     rows # table_states now (sql_update_calls now updates call_id rows) es"
| "table_states now rows (e # es) = table_states now rows es"

subsection \<open>The cost report\<close>

text \<open>
  \<^verbatim>\<open>SUM\<close> over no rows is \<^verbatim>\<open>NULL\<close>; \<^verbatim>\<open>COALESCE(x, 0)\<close> replaces a \<^verbatim>\<open>NULL\<close> by 0.
  The sum is the exact one: SQLite's own \<^verbatim>\<open>SUM\<close> raises an error when integers add up
  beyond 64 bits, a case the model does not have.
\<close>

definition sql_sum :: "('r \<Rightarrow> 'n::monoid_add) \<Rightarrow> 'r list \<Rightarrow> 'n option" where
  "sql_sum col rows = (if rows = [] then None else Some (sum_list (map col rows)))"

definition coalesce :: "'a option \<Rightarrow> 'a \<Rightarrow> 'a" where
  "coalesce v d = (case v of None \<Rightarrow> d | Some x \<Rightarrow> x)"

text \<open>
  \<^verbatim>\<open>DATE(t)\<close> is the calendar day of a timestamp, here the number of the day.
  \<^verbatim>\<open>DATE(created_at) = DATE('now')\<close> selects the rows of the current day. In
  \<^verbatim>\<open>created_at >= DATE('now', '-7 days')\<close> a timestamp text is compared with a date text,
  which holds exactly when the day of the timestamp is not before that date.
\<close>

definition sql_date :: "timestamp \<Rightarrow> int" where
  "sql_date t = int (t div 86400)"

definition created_today :: "timestamp \<Rightarrow> call \<Rightarrow> bool" where
  "created_today now r \<longleftrightarrow> sql_date (created_at r) = sql_date now"

definition created_since :: "timestamp \<Rightarrow> int \<Rightarrow> call \<Rightarrow> bool" where
  "created_since now days r \<longleftrightarrow> sql_date now - days \<le> sql_date (created_at r)"

text \<open>The parts of the JSON document \<^verbatim>\<open>get_costs\<close> returns.\<close>

record money =
  usd :: rat
  inr :: rat

record window_costs = money +
  calls :: nat

record totals_costs = money +
  minutes :: rat
  cost_per_minute_usd :: rat
  cost_per_minute_inr :: rat

record breakdown_costs =
  livekit_sip :: rat
  deepgram_stt :: rat
  deepgram_tts :: rat
  groq_llm :: rat

record costs_report =
  breakdown :: breakdown_costs
  totals :: totals_costs
  today :: window_costs
  week :: window_costs
  month :: window_costs
  pricing :: "string \<rightharpoonup> rat"
  usd_to_inr :: rat

text \<open>
  The query of a window, over the rows its \<^verbatim>\<open>WHERE\<close> clause selects, with the rounding
  \<^verbatim>\<open>get_costs\<close> applies to its result.
\<close>

definition window_query :: "call list \<Rightarrow> window_costs" where
  "window_query rows =
     \<lparr>usd = round_py (coalesce (sql_sum total_cost_usd rows) 0) 4,
      inr = round_py (coalesce (sql_sum total_cost_inr rows) 0) 2,
      calls = length rows\<rparr>"

text \<open>The local variables \<^verbatim>\<open>total_minutes\<close> and \<^verbatim>\<open>cost_per_minute\<close> of \<^verbatim>\<open>get_costs\<close>.\<close>

definition total_minutes :: "world \<Rightarrow> rat" where
  "total_minutes w =
     (let total_duration = coalesce (sql_sum duration (calls_table w)) 0
      in if total_duration > 0 then total_duration / 60 else 0)"

definition cost_per_minute :: "world \<Rightarrow> rat" where
  "cost_per_minute w =
     (let total_usd = coalesce (sql_sum total_cost_usd (calls_table w)) 0
      in if total_minutes w > 0 then total_usd / total_minutes w else 0)"

text \<open>
  \<^verbatim>\<open>get_costs()\<close>; the constant list \<^verbatim>\<open>tips\<close> of the document is left out. The
  function raises nothing by itself: every sum is coalesced and the division is guarded.
\<close>

definition get_costs :: "timestamp \<Rightarrow> world \<Rightarrow> costs_report" where
  "get_costs now w =
     (let rows = calls_table w in
      \<lparr>breakdown =
         \<lparr>livekit_sip = round_py (coalesce (sql_sum cost_livekit rows) 0) 4,
          deepgram_stt = round_py (coalesce (sql_sum cost_stt rows) 0) 4,
          deepgram_tts = round_py (coalesce (sql_sum cost_tts rows) 0) 4,
          groq_llm = round_py (coalesce (sql_sum cost_llm rows) 0) 4\<rparr>,
       totals =
         \<lparr>usd = round_py (coalesce (sql_sum total_cost_usd rows) 0) 4,
          inr = round_py (coalesce (sql_sum total_cost_inr rows) 0) 2,
          minutes = round_py (total_minutes w) 2,
          cost_per_minute_usd = round_py (cost_per_minute w) 4,
          cost_per_minute_inr = round_py (cost_per_minute w * USD_TO_INR w) 2\<rparr>,
       today = window_query (filter (created_today now) rows),
       week = window_query (filter (created_since now 7) rows),
       month = window_query (filter (created_since now 30) rows),
       pricing = PRICING w,
       usd_to_inr = USD_TO_INR w\<rparr>)"

subsection \<open>Concrete states\<close>

text \<open>
  The world just after the module is loaded, over given rows, and a row as
  \<^verbatim>\<open>dispatch_call\<close> inserts it: \<^verbatim>\<open>INSERT INTO calls (phone_number, room_name,
  dispatch_id, status) VALUES (?, ?, ?, 'dialing')\<close>, every other column at its default.
\<close>

definition loaded_world :: "call list \<Rightarrow> world" where
  "loaded_world rows =
     \<lparr>PRICING = initial_PRICING, USD_TO_INR = initial_USD_TO_INR, calls_table = rows,
      journal = []\<rparr>"

definition inserted_call :: "int \<Rightarrow> string \<Rightarrow> string \<Rightarrow> string \<Rightarrow> timestamp \<Rightarrow> call" where
  "inserted_call i phone room dispatch now =
     \<lparr>cost_livekit = 0, cost_stt = 0, cost_tts = 0, cost_llm = 0,
      total_cost_usd = 0, total_cost_inr = 0,
      row_id = i, phone_number = phone, room_name = Some room, dispatch_id = Some dispatch,
      status = ''dialing'', duration = 0, row_notes = None,
      created_at = now, ended_at = None\<rparr>"

text \<open>
  A stored total is rounded when rounding it again changes nothing: to four decimals for
  the USD column, to two for the INR column.
\<close>

definition stored_rounded :: "call \<Rightarrow> bool" where
  "stored_rounded r \<longleftrightarrow>
     round_py (total_cost_usd r) 4 = total_cost_usd r \<and>
     round_py (total_cost_inr r) 2 = total_cost_inr r"

text \<open>Request bodies and rows used as examples below.\<close>

definition completed_after :: "number \<Rightarrow> request_data" where
  "completed_after d =
     \<lparr>data_status = Some ''completed'', data_notes = None,
      data_duration = Some (Number d)\<rparr>"

definition status_only :: "string \<Rightarrow> request_data" where
  "status_only s = \<lparr>data_status = Some s, data_notes = None, data_duration = None\<rparr>"

definition first_call :: call where
  "first_call = inserted_call 1 ''+911234567890'' ''call-911234567890-1234'' ''AD_1'' 1000"

definition billed_call :: "int \<Rightarrow> timestamp \<Rightarrow> rat \<Rightarrow> rat \<Rightarrow> call" where
  "billed_call i t u n =
     (inserted_call i ''+911234567890'' ''call-911234567890-1234'' ''AD_1'' t)
       \<lparr>total_cost_usd := u, total_cost_inr := n\<rparr>"

definition three_calls :: "call list" where
  "three_calls =
     [billed_call 1 10 (1 / 10) (83 / 10),
      billed_call 2 20 (2 / 10) (166 / 10),
      billed_call 3 30 (3 / 10) (249 / 10)]"

text \<open>
  The keys \<^verbatim>\<open>calculate_call_cost\<close> subscripts, in the order it does, and two variants
  of the loaded world: one whose table lacks the speech-to-text price, one where that
  price is zero.
\<close>

definition price_keys :: "string list" where
  "price_keys = [''livekit_sip'', ''deepgram_stt'', ''deepgram_tts'',
                 ''avg_tokens_per_call'', ''groq_input'', ''groq_output'']"

definition partly_priced_world :: world where
  "partly_priced_world =
     \<lparr>PRICING = initial_PRICING(''deepgram_stt'' := None),
      USD_TO_INR = initial_USD_TO_INR, calls_table = [], journal = []\<rparr>"

definition free_stt_world :: world where
  "free_stt_world =
     \<lparr>PRICING = initial_PRICING(''deepgram_stt'' \<mapsto> 0),
      USD_TO_INR = initial_USD_TO_INR, calls_table = [], journal = []\<rparr>"

section \<open>Evaluation lemmas\<close>

lemma floor_rat_numeral_divide:
  "\<lfloor>numeral a / numeral b :: rat\<rfloor> = numeral a div numeral b"
  using floor_divide_of_int_eq [of "numeral a" "numeral b", where ?'a = rat] by simp

lemma floor_rat_neg_numeral_divide:
  "\<lfloor>- (numeral a / numeral b) :: rat\<rfloor> = - numeral a div numeral b"
  using floor_divide_of_int_eq [of "- numeral a" "numeral b", where ?'a = rat] by simp

lemma floor_rat_one_divide:
  "\<lfloor>1 / numeral b :: rat\<rfloor> = 1 div numeral b"
  using floor_divide_of_int_eq [of 1 "numeral b", where ?'a = rat] by simp

lemma floor_rat_neg_one_divide:
  "\<lfloor>- (1 / numeral b) :: rat\<rfloor> = - 1 div numeral b"
  using floor_divide_of_int_eq [of "- 1" "numeral b", where ?'a = rat] by simp

lemmas round_eval = round_py_def round_half_even_def Let_def
  floor_rat_numeral_divide floor_rat_neg_numeral_divide
  floor_rat_one_divide floor_rat_neg_one_divide

lemma round_half_even_of_int: "round_half_even (of_int k) = k"
  by (simp add: round_half_even_def)

lemma round_py_zero: "round_py 0 n = 0"
  by (simp add: round_py_def round_half_even_def)


lemma round_half_even_lower: "q - 1 / 2 \<le> of_int (round_half_even q)"
proof -
  have "q < of_int \<lfloor>q\<rfloor> + 1" by linarith
  then show ?thesis
    by (simp add: round_half_even_def Let_def)
qed


lemma initial_PRICING_lookup:
  "initial_PRICING ''livekit_sip'' = Some (10 / 1000)"
  "initial_PRICING ''deepgram_stt'' = Some (59 / 10000)"
  "initial_PRICING ''deepgram_tts'' = Some (27 / 1000)"
  "initial_PRICING ''avg_tokens_per_call'' = Some 2000"
  "initial_PRICING ''groq_input'' = Some (59 / 100000000)"
  "initial_PRICING ''groq_output'' = Some (79 / 100000000)"
  by (simp_all add: initial_PRICING_def)

lemma as_loaded_loaded_world: "as_loaded (loaded_world rows)"
  by (simp add: as_loaded_def loaded_world_def)

section \<open>The calculator in closed form\<close>

text \<open>With every key present the calculator returns, and its result is this one.\<close>

lemma calculate_call_cost_present:
  assumes "PRICING w ''livekit_sip'' = Some p_sip"
    and "PRICING w ''deepgram_stt'' = Some p_stt"
    and "PRICING w ''deepgram_tts'' = Some p_tts"
    and "PRICING w ''avg_tokens_per_call'' = Some n"
    and "PRICING w ''groq_input'' = Some p_in"
    and "PRICING w ''groq_output'' = Some p_out"
  shows "calculate_call_cost w d =
    Inr \<lparr>cost_livekit = round_py (p_sip * (d / 60)) 6,
         cost_stt = round_py (p_stt * (d / 60)) 6,
         cost_tts = round_py (p_tts * (d / 60)) 6,
         cost_llm = round_py (n * p_in + n * p_out) 6,
         total_cost_usd = round_py (p_sip * (d / 60) + p_stt * (d / 60)
             + p_tts * (d / 60) + (n * p_in + n * p_out)) 4,
         total_cost_inr = round_py ((p_sip * (d / 60) + p_stt * (d / 60)
             + p_tts * (d / 60) + (n * p_in + n * p_out)) * USD_TO_INR w) 2,
         duration_minutes = round_py (d / 60) 2\<rparr>"
  using assms by (simp add: calculate_call_cost_def subscript_def and_then_def Let_def)

text \<open>
  For the configured table and rate the unrounded figures are \<open>d / 6000\<close>,
  \<open>59 d / 600000\<close>, \<open>9 d / 20000\<close> and \<open>69 / 25000\<close> (that is, 0.00276), with the sum
  \<open>143 d / 200000 + 69 / 25000\<close>.
\<close>

lemma calculate_call_cost_loaded:
  assumes "as_loaded w"
  shows "calculate_call_cost w d =
    Inr \<lparr>cost_livekit = round_py (d / 6000) 6,
         cost_stt = round_py (59 * d / 600000) 6,
         cost_tts = round_py (9 * d / 20000) 6,
         cost_llm = 69 / 25000,
         total_cost_usd = round_py (143 * d / 200000 + 69 / 25000) 4,
         total_cost_inr = round_py (11869 * d / 200000 + 5727 / 25000) 2,
         duration_minutes = round_py (d / 60) 2\<rparr>"
proof -
  have llm: "round_py (69 / 25000) 6 = 69 / 25000"
    by (simp add: round_eval)
  have "PRICING w = initial_PRICING" "USD_TO_INR w = 83"
    using assms by (simp_all add: as_loaded_def initial_USD_TO_INR_def)
  then show ?thesis
    using calculate_call_cost_present
      [of w "10 / 1000" "59 / 10000" "27 / 1000" 2000 "59 / 100000000" "79 / 100000000" d]
    by (simp add: initial_PRICING_lookup llm)
qed

text \<open>A missing key makes the calculator raise, and it raises for no other reason.\<close>

lemma calculate_call_cost_missing:
  assumes "k \<in> set price_keys" "PRICING w k = None"
  shows "\<exists>k' \<in> set price_keys. PRICING w k' = None \<and> calculate_call_cost w d = Inl (KeyError k')"
proof (cases "\<exists>c. calculate_call_cost w d = Inr c")
  case True
  then have "PRICING w k' \<noteq> None" if "k' \<in> set price_keys" for k'
    using that
    by (auto simp: calculate_call_cost_def subscript_def and_then_def Let_def price_keys_def
        split: option.splits)
  with assms show ?thesis by blast
next
  case False
  then show ?thesis
    by (auto simp: calculate_call_cost_def subscript_def and_then_def Let_def price_keys_def
        split: option.splits)
qed

lemma calculate_call_cost_zero_entries:
  assumes "\<forall>k \<in> set price_keys. PRICING w k \<noteq> None"
  shows "\<exists>c. calculate_call_cost w d = Inr c \<and>
      (PRICING w ''livekit_sip'' = Some 0 \<longrightarrow> cost_livekit c = 0) \<and>
      (PRICING w ''deepgram_stt'' = Some 0 \<longrightarrow> cost_stt c = 0) \<and>
      (PRICING w ''deepgram_tts'' = Some 0 \<longrightarrow> cost_tts c = 0) \<and>
      (PRICING w ''avg_tokens_per_call'' = Some 0 \<longrightarrow> cost_llm c = 0) \<and>
      (PRICING w ''groq_input'' = Some 0 \<longrightarrow>
         cost_llm c = round_py (the (PRICING w ''avg_tokens_per_call'')
                                 * the (PRICING w ''groq_output'')) 6) \<and>
      (PRICING w ''groq_output'' = Some 0 \<longrightarrow>
         cost_llm c = round_py (the (PRICING w ''avg_tokens_per_call'')
                                 * the (PRICING w ''groq_input'')) 6)"
proof -
  from assms obtain p_sip p_stt p_tts n p_in p_out where
    keys: "PRICING w ''livekit_sip'' = Some p_sip" "PRICING w ''deepgram_stt'' = Some p_stt"
      "PRICING w ''deepgram_tts'' = Some p_tts" "PRICING w ''avg_tokens_per_call'' = Some n"
      "PRICING w ''groq_input'' = Some p_in" "PRICING w ''groq_output'' = Some p_out"
    by (auto simp: price_keys_def)
  show ?thesis
    using calculate_call_cost_present [OF keys, of d] keys by (simp add: round_py_zero)
qed

section \<open>The worked example\<close>

text \<open>
  C1. With the configured price table and the rate 83, a call of 120 seconds costs
  0.02 for the transport, 0.0118 for speech-to-text, 0.054 for text-to-speech and 0.00276
  for the language model; the total is 0.0886 in USD, rounded to four decimals, and 7.35 in
  INR, rounded to two.
\<close>

theorem calculate_call_cost_120:
  "as_loaded w \<Longrightarrow>
   calculate_call_cost w 120 =
     Inr \<lparr>cost_livekit = 2 / 100, cost_stt = 118 / 10000, cost_tts = 54 / 1000,
          cost_llm = 276 / 100000, total_cost_usd = 886 / 10000, total_cost_inr = 735 / 100,
          duration_minutes = 2\<rparr>"
  by (simp add: calculate_call_cost_loaded round_eval)

theorem calculate_call_cost_120_witness:
  "as_loaded (loaded_world []) \<and>
   calculate_call_cost (loaded_world []) 120 =
     Inr \<lparr>cost_livekit = 2 / 100, cost_stt = 118 / 10000, cost_tts = 54 / 1000,
          cost_llm = 276 / 100000, total_cost_usd = 886 / 10000, total_cost_inr = 735 / 100,
          duration_minutes = 2\<rparr>"
  using calculate_call_cost_120 [of "loaded_world []"] by (simp add: as_loaded_loaded_world)

section \<open>A call of no duration\<close>

text \<open>
  C2, as the code has it. For duration 0 the three duration-proportional components are
  zero, and the USD total is the estimator cost
  \<open>avg_tokens * groq_input + avg_tokens * groq_output\<close> rounded to four decimals; the
  estimator cost itself, to six decimals, is the field \<open>cost_llm\<close>.
\<close>

theorem calculate_call_cost_zero_duration:
  assumes "PRICING w ''livekit_sip'' = Some p_sip"
    and "PRICING w ''deepgram_stt'' = Some p_stt"
    and "PRICING w ''deepgram_tts'' = Some p_tts"
    and "PRICING w ''avg_tokens_per_call'' = Some n"
    and "PRICING w ''groq_input'' = Some p_in"
    and "PRICING w ''groq_output'' = Some p_out"
  shows "calculate_call_cost w 0 =
    Inr \<lparr>cost_livekit = 0, cost_stt = 0, cost_tts = 0,
         cost_llm = round_py (n * p_in + n * p_out) 6,
         total_cost_usd = round_py (n * p_in + n * p_out) 4,
         total_cost_inr = round_py ((n * p_in + n * p_out) * USD_TO_INR w) 2,
         duration_minutes = 0\<rparr>"
  using calculate_call_cost_present [OF assms, of 0] by (simp add: round_py_zero)

theorem calculate_call_cost_zero_duration_witness:
  "PRICING (loaded_world []) ''livekit_sip'' = Some (10 / 1000) \<and>
   PRICING (loaded_world []) ''deepgram_stt'' = Some (59 / 10000) \<and>
   PRICING (loaded_world []) ''deepgram_tts'' = Some (27 / 1000) \<and>
   PRICING (loaded_world []) ''avg_tokens_per_call'' = Some 2000 \<and>
   PRICING (loaded_world []) ''groq_input'' = Some (59 / 100000000) \<and>
   PRICING (loaded_world []) ''groq_output'' = Some (79 / 100000000) \<and>
   calculate_call_cost (loaded_world []) 0 =
    Inr \<lparr>cost_livekit = 0, cost_stt = 0, cost_tts = 0,
         cost_llm = 276 / 100000, total_cost_usd = 28 / 10000,
         total_cost_inr = 23 / 100, duration_minutes = 0\<rparr>"
  using calculate_call_cost_zero_duration
    [of "loaded_world []" "10 / 1000" "59 / 10000" "27 / 1000" 2000
      "59 / 100000000" "79 / 100000000"]
  by (simp add: loaded_world_def initial_PRICING_lookup initial_USD_TO_INR_def round_eval)

text \<open>
  C2 as stated fails for the configured table: the estimator cost is 0.00276, and the
  total the calculator returns for duration 0 is 0.0028.
\<close>

theorem zero_duration_total_is_rounded:
  "calculate_call_cost (loaded_world []) 0 =
     Inr \<lparr>cost_livekit = 0, cost_stt = 0, cost_tts = 0, cost_llm = 276 / 100000,
          total_cost_usd = 28 / 10000, total_cost_inr = 23 / 100, duration_minutes = 0\<rparr>
   \<and> (28 / 10000 :: rat) \<noteq> 2000 * (59 / 100000000 + 79 / 100000000)"
  by (simp add: calculate_call_cost_loaded as_loaded_loaded_world round_eval round_py_zero)

section \<open>Zero and missing prices\<close>

text \<open>
  C7, as the code has it. When the table has all six keys the calculator returns, and a
  price of zero makes its category cost nothing: the transport, speech-to-text and
  text-to-speech costs are 0 for a zero price, the language-model cost is 0 for a zero token
  budget and is the other token price alone when one of the two is zero. When a key is
  missing the calculator raises \<^verbatim>\<open>KeyError\<close> for a missing key.
\<close>

theorem zero_or_missing_price_entry:
  "((\<forall>k \<in> set price_keys. PRICING w k \<noteq> None) \<longrightarrow>
      (\<exists>c. calculate_call_cost w d = Inr c \<and>
        (PRICING w ''livekit_sip'' = Some 0 \<longrightarrow> cost_livekit c = 0) \<and>
        (PRICING w ''deepgram_stt'' = Some 0 \<longrightarrow> cost_stt c = 0) \<and>
        (PRICING w ''deepgram_tts'' = Some 0 \<longrightarrow> cost_tts c = 0) \<and>
        (PRICING w ''avg_tokens_per_call'' = Some 0 \<longrightarrow> cost_llm c = 0) \<and>
        (PRICING w ''groq_input'' = Some 0 \<longrightarrow>
           cost_llm c = round_py (the (PRICING w ''avg_tokens_per_call'')
                                   * the (PRICING w ''groq_output'')) 6) \<and>
        (PRICING w ''groq_output'' = Some 0 \<longrightarrow>
           cost_llm c = round_py (the (PRICING w ''avg_tokens_per_call'')
                                   * the (PRICING w ''groq_input'')) 6)))
   \<and> ((\<exists>k \<in> set price_keys. PRICING w k = None) \<longrightarrow>
      (\<exists>k \<in> set price_keys. PRICING w k = None \<and> calculate_call_cost w d = Inl (KeyError k)))"
  using calculate_call_cost_zero_entries [of w d] calculate_call_cost_missing [of _ w d]
  by blast

theorem zero_or_missing_price_entry_witness:
  "PRICING free_stt_world ''livekit_sip'' \<noteq> None \<and>
   PRICING free_stt_world ''deepgram_stt'' \<noteq> None \<and>
   PRICING free_stt_world ''deepgram_tts'' \<noteq> None \<and>
   PRICING free_stt_world ''avg_tokens_per_call'' \<noteq> None \<and>
   PRICING free_stt_world ''groq_input'' \<noteq> None \<and>
   PRICING free_stt_world ''groq_output'' \<noteq> None \<and>
   PRICING free_stt_world ''deepgram_stt'' = Some 0 \<and>
   (\<exists>c. calculate_call_cost free_stt_world 60 = Inr c \<and> cost_stt c = 0) \<and>
   (\<exists>k \<in> set price_keys. PRICING partly_priced_world k = None) \<and>
   (\<exists>k \<in> set price_keys. calculate_call_cost partly_priced_world 60 = Inl (KeyError k))"
proof -
  have full: "\<forall>k \<in> set price_keys. PRICING free_stt_world k \<noteq> None"
    by (simp add: price_keys_def free_stt_world_def initial_PRICING_def del: not_None_eq)
  have zero: "PRICING free_stt_world ''deepgram_stt'' = Some 0"
    by (simp add: free_stt_world_def)
  have gap: "\<exists>k \<in> set price_keys. PRICING partly_priced_world k = None"
    by (simp add: price_keys_def partly_priced_world_def)
  have each: "PRICING free_stt_world ''livekit_sip'' \<noteq> None"
      "PRICING free_stt_world ''deepgram_stt'' \<noteq> None"
      "PRICING free_stt_world ''deepgram_tts'' \<noteq> None"
      "PRICING free_stt_world ''avg_tokens_per_call'' \<noteq> None"
      "PRICING free_stt_world ''groq_input'' \<noteq> None"
      "PRICING free_stt_world ''groq_output'' \<noteq> None"
    using full by (simp_all add: price_keys_def del: not_None_eq)
  have rest: "(\<exists>c. calculate_call_cost free_stt_world 60 = Inr c \<and> cost_stt c = 0) \<and>
      (\<exists>k \<in> set price_keys. calculate_call_cost partly_priced_world 60 = Inl (KeyError k))"
    using full zero gap zero_or_missing_price_entry [of free_stt_world 60]
      zero_or_missing_price_entry [of partly_priced_world 60]
    by blast
  show ?thesis
    using each zero gap rest by (simp only: simp_thms)
qed

text \<open>
  C7 as stated fails: with the speech-to-text price missing from the table, the
  calculator raises \<^verbatim>\<open>KeyError('deepgram_stt')\<close> instead of returning a breakdown.
\<close>

theorem missing_price_entry_raises:
  "calculate_call_cost partly_priced_world 60 = Inl (KeyError ''deepgram_stt'')"
  by (simp add: calculate_call_cost_def partly_priced_world_def initial_PRICING_def
      subscript_def and_then_def Let_def)

section \<open>The update handler in closed form\<close>

lemma list_all2_map_same:
  "list_all2 P xs (map f xs) \<longleftrightarrow> (\<forall>x \<in> set xs. P x (f x))"
  by (induction xs) auto

lemma bindable_duration_clauses:
  "list_all bindable (duration_clauses x c) \<longleftrightarrow> bindable (Set_duration x)"
  by (simp add: duration_clauses_def)

lemma duration_clauses_nonempty: "duration_clauses x c \<noteq> []"
  by (simp add: duration_clauses_def)

text \<open>
  An exception, of the calculator or of the binding, ends the request with the table
  untouched and nothing but the call of the calculator in the journal.
\<close>

lemma update_call_not_a_number:
  assumes "data_duration data = Some Not_a_number"
  shows "update_call call_id data now w =
     (Error_500 TypeError, w\<lparr>journal := journal w @ [Calculated Not_a_number]\<rparr>)"
  using assms by (simp add: update_call_def and_then_def Let_def)

lemma update_call_raises:
  assumes "data_duration data = Some (Number x)"
    and "calculate_call_cost w (number_value x) = Inl e"
  shows "update_call call_id data now w =
     (Error_500 e, w\<lparr>journal := journal w @ [Calculated (Number x)]\<rparr>)"
  using assms by (simp add: update_call_def and_then_def Let_def)

lemma update_call_unbindable:
  assumes "data_duration data = Some (Number x)"
    and "calculate_call_cost w (number_value x) = Inr c"
    and "\<not> (bindable (Set_duration x) \<and> fits_int64 call_id)"
  shows "update_call call_id data now w =
     (Error_500 OverflowError, w\<lparr>journal := journal w @ [Calculated (Number x)]\<rparr>)"
  using assms
  by (cases "data_status data"; cases "data_notes data")
     (auto simp: update_call_def and_then_def Let_def execute_update_def
        bindable_duration_clauses duration_clauses_nonempty)

text \<open>
  What a request with a duration does when nothing raises: one statement, which carries
  every clause, and its commit.
\<close>

lemma update_call_with_duration:
  assumes "data_duration data = Some (Number x)"
    and "calculate_call_cost w (number_value x) = Inr c"
    and "bindable (Set_duration x)" and "fits_int64 call_id"
  shows "update_call call_id data now w =
     (Call_updated,
      w\<lparr>calls_table :=
          sql_update_calls now
            ((case data_status data of Some v \<Rightarrow> [Set_status v] | None \<Rightarrow> [])
             @ (case data_notes data of Some v \<Rightarrow> [Set_notes v] | None \<Rightarrow> [])
             @ duration_clauses x c
             @ (if terminal_status_given data then [Set_ended_at_CURRENT_TIMESTAMP] else []))
            call_id (calls_table w),
        journal := journal w @
          [Calculated (Number x),
           Executed
            ((case data_status data of Some v \<Rightarrow> [Set_status v] | None \<Rightarrow> [])
             @ (case data_notes data of Some v \<Rightarrow> [Set_notes v] | None \<Rightarrow> [])
             @ duration_clauses x c
             @ (if terminal_status_given data then [Set_ended_at_CURRENT_TIMESTAMP] else []))
            call_id,
           Committed]\<rparr>)"
  using assms
  by (cases "data_status data"; cases "data_notes data")
     (auto simp: update_call_def and_then_def Let_def execute_update_def
        bindable_duration_clauses duration_clauses_def)

lemma duration_statement_rows:
  "sql_update_calls now
      ((case data_status data of Some v \<Rightarrow> [Set_status v] | None \<Rightarrow> [])
       @ (case data_notes data of Some v \<Rightarrow> [Set_notes v] | None \<Rightarrow> [])
       @ duration_clauses x c
       @ (if terminal_status_given data then [Set_ended_at_CURRENT_TIMESTAMP] else []))
      call_id rows =
   map (\<lambda>r. if row_id r = call_id
           then r\<lparr>status := (case data_status data of Some v \<Rightarrow> v | None \<Rightarrow> status r),
                  row_notes := (case data_notes data of Some v \<Rightarrow> Some v | None \<Rightarrow> row_notes r),
                  duration := number_value x,
                  cost_livekit := cost_livekit c, cost_stt := cost_stt c,
                  cost_tts := cost_tts c, cost_llm := cost_llm c,
                  total_cost_usd := total_cost_usd c, total_cost_inr := total_cost_inr c,
                  ended_at := (if terminal_status_given data then Some now else ended_at r)\<rparr>
           else r) rows"
  by (cases "data_status data"; cases "data_notes data")
     (simp_all add: sql_update_calls_def duration_clauses_def)

lemma update_call_no_duration:
  assumes "data_duration data = None"
  shows "fst (update_call call_id data now w) = Call_updated \<Longrightarrow>
     calls_table (snd (update_call call_id data now w)) =
     map (\<lambda>r. if row_id r = call_id
           then r\<lparr>status := (case data_status data of Some v \<Rightarrow> v | None \<Rightarrow> status r),
                  row_notes := (case data_notes data of Some v \<Rightarrow> Some v | None \<Rightarrow> row_notes r),
                  ended_at := (if terminal_status_given data then Some now else ended_at r)\<rparr>
           else r) (calls_table w)"
    and "fst (update_call call_id data now w) \<noteq> Call_updated \<Longrightarrow>
     calls_table (snd (update_call call_id data now w)) = calls_table w"
    and "fits_int64 call_id \<Longrightarrow> fst (update_call call_id data now w) = Call_updated"
proof -
  have same: "map (\<lambda>r. if row_id r = call_id then r else r) rows = rows" for rows :: "call list"
    by (induction rows) auto
  show "fst (update_call call_id data now w) = Call_updated \<Longrightarrow>
     calls_table (snd (update_call call_id data now w)) =
     map (\<lambda>r. if row_id r = call_id
           then r\<lparr>status := (case data_status data of Some v \<Rightarrow> v | None \<Rightarrow> status r),
                  row_notes := (case data_notes data of Some v \<Rightarrow> Some v | None \<Rightarrow> row_notes r),
                  ended_at := (if terminal_status_given data then Some now else ended_at r)\<rparr>
           else r) (calls_table w)"
    using assms
    by (cases "data_status data"; cases "data_notes data")
       (simp_all add: update_call_def Let_def sql_update_calls_def same execute_update_def
          terminal_status_given_def split: if_splits cong: if_cong)
  show "fst (update_call call_id data now w) \<noteq> Call_updated \<Longrightarrow>
     calls_table (snd (update_call call_id data now w)) = calls_table w"
    using assms
    by (cases "data_status data"; cases "data_notes data")
       (simp_all add: update_call_def Let_def execute_update_def split: if_splits)
  show "fits_int64 call_id \<Longrightarrow> fst (update_call call_id data now w) = Call_updated"
    using assms
    by (cases "data_status data"; cases "data_notes data")
       (simp_all add: update_call_def Let_def execute_update_def)
qed

lemma update_call_ended_at:
  "list_all2 (\<lambda>r r'. ended_at r' =
       (if fst (update_call call_id data now w) = Call_updated \<and> row_id r = call_id
           \<and> terminal_status_given data
        then Some now else ended_at r))
     (calls_table w) (calls_table (snd (update_call call_id data now w)))"
proof (cases "data_duration data")
  case None
  show ?thesis
  proof (cases "fst (update_call call_id data now w) = Call_updated")
    case True
    then show ?thesis
      using update_call_no_duration(1) [OF None True]
      by (simp add: list_all2_map_same)
  next
    case False
    then show ?thesis
      using update_call_no_duration(2) [OF None False]
      by (simp add: list_all2_same)
  qed
next
  case (Some d)
  show ?thesis
  proof (cases d)
    case Not_a_number
    then show ?thesis
      using Some by (simp add: update_call_not_a_number list_all2_same)
  next
    case (Number x)
    show ?thesis
    proof (cases "calculate_call_cost w (number_value x)")
      case (Inl e)
      then show ?thesis
        using Some Number by (simp add: update_call_raises list_all2_same)
    next
      case (Inr c)
      show ?thesis
      proof (cases "bindable (Set_duration x) \<and> fits_int64 call_id")
        case True
        then show ?thesis
          using Some Number Inr
          by (simp add: update_call_with_duration duration_statement_rows list_all2_map_same)
      next
        case False
        then show ?thesis
          using update_call_unbindable [of data x w c call_id now] Some Number Inr
          by (simp add: list_all2_same)
      qed
    qed
  qed
qed


lemma calculate_call_cost_loaded_120: "calculate_call_cost (loaded_world rows) 120 =
     Inr \<lparr>cost_livekit = 2 / 100, cost_stt = 118 / 10000, cost_tts = 54 / 1000,
          cost_llm = 276 / 100000, total_cost_usd = 886 / 10000, total_cost_inr = 735 / 100,
          duration_minutes = 2\<rparr>"
  by (simp add: calculate_call_cost_loaded as_loaded_loaded_world round_eval)

section \<open>Duration and costs are written together\<close>

text \<open>
  C3. A request that carries a duration calls the calculator once, with that duration. When
  the call raises (the duration is not a number, a price is missing) or the binding does
  (the duration or the id does not fit 64 bits), the answer is the error, no statement has
  run and the table is as it was. Otherwise the request executes one statement and commits
  it: the statement carries the clause of the duration together with the clauses of all six
  costs, which are the figures the calculator returned; the table goes through two states
  only, the one before and the one after that statement; and in the one after, the row
  addressed holds the duration and exactly those six figures, every other row being
  unchanged. No table with the new duration and old costs exists at any point.
\<close>

theorem update_call_writes_costs_with_duration:
  assumes "data_duration data = Some d"
  shows
   "case and_then (as_number d) (\<lambda>x.
           and_then (calculate_call_cost w (number_value x)) (\<lambda>c. Inr (x, c))) of
      Inl e \<Rightarrow>
        update_call call_id data now w =
          (Error_500 e, w\<lparr>journal := journal w @ [Calculated d]\<rparr>)
    | Inr (x, c) \<Rightarrow>
        (let updates =
               (case data_status data of Some v \<Rightarrow> [Set_status v] | None \<Rightarrow> [])
               @ (case data_notes data of Some v \<Rightarrow> [Set_notes v] | None \<Rightarrow> [])
               @ duration_clauses x c
               @ (if terminal_status_given data then [Set_ended_at_CURRENT_TIMESTAMP] else []);
             after = sql_update_calls now updates call_id (calls_table w)
         in if bindable (Set_duration x) \<and> fits_int64 call_id
            then update_call call_id data now w =
                   (Call_updated,
                    w\<lparr>calls_table := after,
                      journal := journal w @
                        [Calculated d, Executed updates call_id, Committed]\<rparr>)
                 \<and> table_states now (calls_table w)
                      [Calculated d, Executed updates call_id, Committed]
                    = [calls_table w, after]
                 \<and> list_all2 (\<lambda>r r'.
                       if row_id r = call_id
                       then row_id r' = call_id \<and> duration r' = number_value x \<and>
                            cost_livekit r' = cost_livekit c \<and> cost_stt r' = cost_stt c \<and>
                            cost_tts r' = cost_tts c \<and> cost_llm r' = cost_llm c \<and>
                            total_cost_usd r' = total_cost_usd c \<and>
                            total_cost_inr r' = total_cost_inr c
                       else r' = r)
                     (calls_table w) after
            else update_call call_id data now w =
                   (Error_500 OverflowError, w\<lparr>journal := journal w @ [Calculated d]\<rparr>))"
proof (cases d)
  case Not_a_number
  then show ?thesis
    using assms by (simp add: update_call_not_a_number and_then_def)
next
  case (Number x)
  show ?thesis
  proof (cases "calculate_call_cost w (number_value x)")
    case (Inl e)
    then show ?thesis
      using assms Number by (simp add: update_call_raises and_then_def)
  next
    case (Inr c)
    show ?thesis
    proof (cases "bindable (Set_duration x) \<and> fits_int64 call_id")
      case True
      then show ?thesis
        using assms Number Inr
          update_call_with_duration [of data x w c call_id now]
        by (simp add: and_then_def Let_def duration_statement_rows list_all2_map_same)
    next
      case False
      then show ?thesis
        using update_call_unbindable [of data x w c call_id now] assms Number Inr
        by (simp add: and_then_def Let_def)
    qed
  qed
qed

theorem update_call_writes_costs_with_duration_witness:
  "data_duration (completed_after (Int_number 120)) = Some (Number (Int_number 120)) \<and>
   fst (update_call 1 (completed_after (Int_number 120)) 2000 (loaded_world [first_call]))
     = Call_updated \<and>
   journal (snd (update_call 1 (completed_after (Int_number 120)) 2000
       (loaded_world [first_call])))
     = [Calculated (Number (Int_number 120)),
        Executed [Set_status ''completed'', Set_duration (Int_number 120),
                  Set_cost_livekit (2 / 100), Set_cost_stt (118 / 10000),
                  Set_cost_tts (54 / 1000), Set_cost_llm (276 / 100000),
                  Set_total_cost_usd (886 / 10000), Set_total_cost_inr (735 / 100),
                  Set_ended_at_CURRENT_TIMESTAMP] 1,
        Committed] \<and>
   map (\<lambda>r. (row_id r, duration r, cost_livekit r, cost_stt r, cost_tts r, cost_llm r,
             total_cost_usd r, total_cost_inr r))
     (calls_table (snd (update_call 1 (completed_after (Int_number 120)) 2000
        (loaded_world [first_call]))))
   = [(1, 120, 2 / 100, 118 / 10000, 54 / 1000, 276 / 100000, 886 / 10000, 735 / 100)]"
proof -
  have d: "data_duration (completed_after (Int_number 120)) = Some (Number (Int_number 120))"
      "data_status (completed_after (Int_number 120)) = Some ''completed''"
      "data_notes (completed_after (Int_number 120)) = None"
      "terminal_status_given (completed_after (Int_number 120))"
    by (simp_all add: completed_after_def terminal_status_given_def terminal_statuses_def)
  have rows: "calls_table (loaded_world [first_call]) = [first_call]" "row_id first_call = 1"
      "journal (loaded_world [first_call]) = []"
    by (simp_all add: loaded_world_def first_call_def inserted_call_def)
  have fits: "fits_int64 120" "fits_int64 1"
    by (simp_all add: fits_int64_def)
  show ?thesis
    using update_call_writes_costs_with_duration
      [OF d(1), where w = "loaded_world [first_call]" and call_id = 1 and now = 2000]
    by (simp add: d rows fits and_then_def calculate_call_cost_loaded_120 Let_def
        duration_clauses_def sql_update_calls_def)
qed

section \<open>The end timestamp\<close>

text \<open>
  C4, as the code has it. A request that succeeds with a terminal status (completed, failed,
  no\_answer) sets \<^verbatim>\<open>ended_at\<close> of the row it addresses to the current time, whether
  the column was \<^verbatim>\<open>NULL\<close> or not; every other request and every other row keeps its
  \<^verbatim>\<open>ended_at\<close>.
\<close>

theorem terminal_update_stamps_ended_at:
  "list_all2 (\<lambda>r r'. ended_at r' =
       (if fst (update_call call_id data now w) = Call_updated \<and> row_id r = call_id
           \<and> terminal_status_given data
        then Some now else ended_at r))
     (calls_table w) (calls_table (snd (update_call call_id data now w)))"
  by (rule update_call_ended_at)

theorem terminal_update_stamps_ended_at_witness:
  "terminal_status_given (status_only ''failed'') \<and>
   \<not> terminal_status_given (status_only ''in-progress'') \<and>
   map ended_at (calls_table (snd (update_call 1 (status_only ''failed'') 3000
       (loaded_world [first_call\<lparr>ended_at := Some 2000\<rparr>])))) = [Some 3000] \<and>
   map ended_at (calls_table (snd (update_call 1 (status_only ''in-progress'') 3000
       (loaded_world [first_call\<lparr>ended_at := Some 2000\<rparr>])))) = [Some 2000]"
proof -
  let ?w = "loaded_world [first_call\<lparr>ended_at := Some 2000\<rparr>]"
  have t: "terminal_status_given (status_only ''failed'')"
      "\<not> terminal_status_given (status_only ''in-progress'')"
    by (simp_all add: terminal_status_given_def status_only_def terminal_statuses_def)
  have ok: "fst (update_call 1 (status_only s) 3000 ?w) = Call_updated" for s
    by (rule update_call_no_duration(3)) (simp_all add: status_only_def fits_int64_def)
  have rows: "calls_table ?w = [first_call\<lparr>ended_at := Some 2000\<rparr>]" "row_id first_call = 1"
    by (simp_all add: loaded_world_def first_call_def inserted_call_def)
  show ?thesis
    using terminal_update_stamps_ended_at [of 1 "status_only ''failed''" 3000 ?w]
      terminal_update_stamps_ended_at [of 1 "status_only ''in-progress''" 3000 ?w] t
    by (auto simp: ok rows list_all2_Cons1)
qed

text \<open>
  C4 as stated fails: a call completed at time 2000 and reported completed again at time
  3000 ends up with \<^verbatim>\<open>ended_at\<close> 3000.
\<close>

theorem repeated_terminal_update_overwrites_ended_at:
  "map ended_at (calls_table (loaded_world [first_call])) = [None] \<and>
   map ended_at (calls_table (snd (update_call 1 (status_only ''completed'') 2000
        (loaded_world [first_call])))) = [Some 2000] \<and>
   map ended_at (calls_table (snd (update_call 1 (status_only ''completed'') 3000
        (snd (update_call 1 (status_only ''completed'') 2000 (loaded_world [first_call]))))))
     = [Some 3000]"
  by (simp add: update_call_def status_only_def loaded_world_def first_call_def
      inserted_call_def terminal_status_given_def terminal_statuses_def sql_update_calls_def
      execute_update_def fits_int64_def Let_def)


section \<open>Sums of rounded figures\<close>

lemma round_py_of_decimal: "round_py (of_int k / 10 ^ n) n = of_int k / 10 ^ n"
  by (simp add: round_py_def round_half_even_of_int)

lemma round_py_idem: "round_py (round_py x n) n = round_py x n"
  unfolding round_py_def [of x n] by (rule round_py_of_decimal)

lemma round_py_fixed_add:
  assumes "round_py a n = a" and "round_py b n = b"
  shows "round_py (a + b) n = a + b"
proof -
  have "a = of_int (round_half_even (a * 10 ^ n)) / 10 ^ n"
       "b = of_int (round_half_even (b * 10 ^ n)) / 10 ^ n"
    using assms by (simp_all add: round_py_def)
  then have "a + b = of_int (round_half_even (a * 10 ^ n) + round_half_even (b * 10 ^ n)) / 10 ^ n"
    by (metis add_divide_distrib of_int_add)
  then show ?thesis
    by (metis round_py_of_decimal)
qed

lemma round_py_three:
  assumes "round_py a n = a" and "round_py b n = b" and "round_py c n = c"
  shows "round_py (a + (b + c)) n = a + b + c"
  using round_py_fixed_add [OF assms(1) round_py_fixed_add [OF assms(2) assms(3)]]
  by (simp add: add.assoc)

text \<open>
  Every total in the table is a rounded one: the column defaults are, the totals the
  calculator returns are, and \<^verbatim>\<open>update_call\<close> writes no others.
\<close>

lemma calculate_call_cost_rounded:
  assumes "calculate_call_cost w d = Inr c"
  shows "round_py (total_cost_usd c) 4 = total_cost_usd c"
    and "round_py (total_cost_inr c) 2 = total_cost_inr c"
proof -
  have "\<forall>k \<in> set price_keys. PRICING w k \<noteq> None"
  proof (rule ccontr)
    assume "\<not> (\<forall>k \<in> set price_keys. PRICING w k \<noteq> None)"
    then obtain k where "k \<in> set price_keys" "PRICING w k = None" by blast
    from calculate_call_cost_missing [OF this, of d] assms show False by auto
  qed
  then obtain p_sip p_stt p_tts n p_in p_out where
    keys: "PRICING w ''livekit_sip'' = Some p_sip" "PRICING w ''deepgram_stt'' = Some p_stt"
      "PRICING w ''deepgram_tts'' = Some p_tts" "PRICING w ''avg_tokens_per_call'' = Some n"
      "PRICING w ''groq_input'' = Some p_in" "PRICING w ''groq_output'' = Some p_out"
    by (auto simp: price_keys_def)
  from calculate_call_cost_present [OF keys, of d] assms
  show "round_py (total_cost_usd c) 4 = total_cost_usd c"
    and "round_py (total_cost_inr c) 2 = total_cost_inr c"
    by (auto simp: round_py_idem)
qed

lemma inserted_call_rounded: "stored_rounded (inserted_call i phone room dispatch t)"
  by (simp add: stored_rounded_def inserted_call_def round_py_zero)

lemma update_call_keeps_rounded:
  assumes "\<forall>r \<in> set (calls_table w). stored_rounded r"
  shows "\<forall>r \<in> set (calls_table (snd (update_call call_id data now w))). stored_rounded r"
proof (cases "data_duration data")
  case None
  show ?thesis
  proof (cases "fst (update_call call_id data now w) = Call_updated")
    case True
    then show ?thesis
      using assms update_call_no_duration(1) [OF None True]
      by (auto simp: stored_rounded_def)
  next
    case False
    then show ?thesis
      using assms update_call_no_duration(2) [OF None False] by simp
  qed
next
  case (Some d)
  show ?thesis
  proof (cases d)
    case Not_a_number
    then show ?thesis
      using Some assms by (simp add: update_call_not_a_number)
  next
    case (Number x)
    show ?thesis
    proof (cases "calculate_call_cost w (number_value x)")
      case (Inl e)
      then show ?thesis
        using Some Number assms by (simp add: update_call_raises)
    next
      case (Inr c)
      show ?thesis
      proof (cases "bindable (Set_duration x) \<and> fits_int64 call_id")
        case True
        then show ?thesis
          using Some Number Inr assms calculate_call_cost_rounded [OF Inr]
          by (auto simp: update_call_with_duration duration_statement_rows stored_rounded_def)
      next
        case False
        then show ?thesis
          using update_call_unbindable [of data x w c call_id now] Some Number Inr assms
          by simp
      qed
    qed
  qed
qed

lemma billed_call_fields:
  "total_cost_usd (billed_call i t u n) = u" "total_cost_inr (billed_call i t u n) = n"
  "created_at (billed_call i t u n) = t" "duration (billed_call i t u n) = 0"
  by (simp_all add: billed_call_def inserted_call_def)

lemma window_query_three:
  assumes "stored_rounded r1" "stored_rounded r2" "stored_rounded r3"
  shows "window_query [r1, r2, r3] =
     \<lparr>usd = total_cost_usd r1 + total_cost_usd r2 + total_cost_usd r3,
      inr = total_cost_inr r1 + total_cost_inr r2 + total_cost_inr r3,
      calls = 3\<rparr>"
  using assms
  by (simp add: window_query_def sql_sum_def coalesce_def stored_rounded_def round_py_three)

lemma get_costs_empty:
  assumes "calls_table w = []"
  shows "get_costs now w =
     \<lparr>breakdown = \<lparr>livekit_sip = 0, deepgram_stt = 0, deepgram_tts = 0, groq_llm = 0\<rparr>,
      totals = \<lparr>usd = 0, inr = 0, minutes = 0, cost_per_minute_usd = 0, cost_per_minute_inr = 0\<rparr>,
      today = \<lparr>usd = 0, inr = 0, calls = 0\<rparr>,
      week = \<lparr>usd = 0, inr = 0, calls = 0\<rparr>,
      month = \<lparr>usd = 0, inr = 0, calls = 0\<rparr>,
      pricing = PRICING w, usd_to_inr = USD_TO_INR w\<rparr>"
  using assms
  by (simp add: get_costs_def Let_def window_query_def sql_sum_def coalesce_def
      total_minutes_def cost_per_minute_def round_py_zero)

lemma cost_per_minute_guard:
  assumes "total_minutes w = 0"
  shows "cost_per_minute w = 0"
    and "cost_per_minute_usd (totals (get_costs now w)) = 0"
    and "cost_per_minute_inr (totals (get_costs now w)) = 0"
  using assms by (simp_all add: cost_per_minute_def get_costs_def Let_def round_py_zero)

section \<open>The report over no calls\<close>

text \<open>
  C5. Over an empty table \<^verbatim>\<open>get_costs\<close> returns its report, at any time of asking,
  with every sum, every window and the cost per minute equal to 0; and whenever the total
  of minutes is 0, the cost per minute is 0 in both currencies, whatever the costs are.
\<close>

theorem get_costs_no_calls:
  "(calls_table w = [] \<longrightarrow>
      get_costs now w =
       \<lparr>breakdown = \<lparr>livekit_sip = 0, deepgram_stt = 0, deepgram_tts = 0, groq_llm = 0\<rparr>,
        totals = \<lparr>usd = 0, inr = 0, minutes = 0, cost_per_minute_usd = 0, cost_per_minute_inr = 0\<rparr>,
        today = \<lparr>usd = 0, inr = 0, calls = 0\<rparr>,
        week = \<lparr>usd = 0, inr = 0, calls = 0\<rparr>,
        month = \<lparr>usd = 0, inr = 0, calls = 0\<rparr>,
        pricing = PRICING w, usd_to_inr = USD_TO_INR w\<rparr>)
   \<and> (total_minutes w = 0 \<longrightarrow>
        cost_per_minute w = 0 \<and>
        cost_per_minute_usd (totals (get_costs now w)) = 0 \<and>
        cost_per_minute_inr (totals (get_costs now w)) = 0)"
  using get_costs_empty [of w now] cost_per_minute_guard(1) [of w]
    cost_per_minute_guard(2,3) [of w now]
  by blast

theorem get_costs_no_calls_witness:
  "calls_table (loaded_world []) = [] \<and>
   get_costs 1000 (loaded_world []) =
       \<lparr>breakdown = \<lparr>livekit_sip = 0, deepgram_stt = 0, deepgram_tts = 0, groq_llm = 0\<rparr>,
        totals = \<lparr>usd = 0, inr = 0, minutes = 0, cost_per_minute_usd = 0, cost_per_minute_inr = 0\<rparr>,
        today = \<lparr>usd = 0, inr = 0, calls = 0\<rparr>,
        week = \<lparr>usd = 0, inr = 0, calls = 0\<rparr>,
        month = \<lparr>usd = 0, inr = 0, calls = 0\<rparr>,
        pricing = initial_PRICING, usd_to_inr = 83\<rparr> \<and>
   total_minutes (loaded_world three_calls) = 0 \<and>
   cost_per_minute_usd (totals (get_costs 1000 (loaded_world three_calls))) = 0 \<and>
   cost_per_minute_inr (totals (get_costs 1000 (loaded_world three_calls))) = 0"
proof -
  have e: "calls_table (loaded_world []) = []"
    by (simp add: loaded_world_def)
  have m: "total_minutes (loaded_world three_calls) = 0"
    by (simp add: total_minutes_def loaded_world_def three_calls_def sql_sum_def coalesce_def
        billed_call_fields)
  show ?thesis
    using get_costs_no_calls [of "loaded_world []" 1000] get_costs_no_calls [of "loaded_world three_calls" 1000] e m
    by (simp add: loaded_world_def initial_USD_TO_INR_def)
qed

section \<open>A window of three calls\<close>

text \<open>
  C9. When a window (today, the last 7 days, the last 30 days, or all time) holds exactly
  three calls, whose stored totals are rounded as \<^verbatim>\<open>update_call\<close> stores them, the total
  the report gives for the window is the sum of the three stored totals, in USD and in INR:
  the rounding of the report changes nothing.
\<close>

theorem window_total_is_sum:
  assumes "stored_rounded r1" "stored_rounded r2" "stored_rounded r3"
  shows "(filter (created_today now) (calls_table w) = [r1, r2, r3] \<longrightarrow>
            usd (today (get_costs now w)) = total_cost_usd r1 + total_cost_usd r2 + total_cost_usd r3 \<and>
            inr (today (get_costs now w)) = total_cost_inr r1 + total_cost_inr r2 + total_cost_inr r3)
       \<and> (filter (created_since now 7) (calls_table w) = [r1, r2, r3] \<longrightarrow>
            usd (week (get_costs now w)) = total_cost_usd r1 + total_cost_usd r2 + total_cost_usd r3 \<and>
            inr (week (get_costs now w)) = total_cost_inr r1 + total_cost_inr r2 + total_cost_inr r3)
       \<and> (filter (created_since now 30) (calls_table w) = [r1, r2, r3] \<longrightarrow>
            usd (month (get_costs now w)) = total_cost_usd r1 + total_cost_usd r2 + total_cost_usd r3 \<and>
            inr (month (get_costs now w)) = total_cost_inr r1 + total_cost_inr r2 + total_cost_inr r3)
       \<and> (calls_table w = [r1, r2, r3] \<longrightarrow>
            usd (totals (get_costs now w)) = total_cost_usd r1 + total_cost_usd r2 + total_cost_usd r3 \<and>
            inr (totals (get_costs now w)) = total_cost_inr r1 + total_cost_inr r2 + total_cost_inr r3)"
proof -
  have tot: "calls_table w = [r1, r2, r3] \<Longrightarrow>
      usd (totals (get_costs now w)) = total_cost_usd r1 + total_cost_usd r2 + total_cost_usd r3 \<and>
      inr (totals (get_costs now w)) = total_cost_inr r1 + total_cost_inr r2 + total_cost_inr r3"
    using assms
    by (simp add: get_costs_def Let_def sql_sum_def coalesce_def stored_rounded_def round_py_three)
  show ?thesis
    using tot by (simp add: get_costs_def Let_def window_query_three [OF assms])
qed

theorem window_total_is_sum_witness:
  "stored_rounded (billed_call 1 10 (1 / 10) (83 / 10)) \<and>
   stored_rounded (billed_call 2 20 (2 / 10) (166 / 10)) \<and>
   stored_rounded (billed_call 3 30 (3 / 10) (249 / 10)) \<and>
   filter (created_today 1000) (calls_table (loaded_world three_calls)) = three_calls \<and>
   filter (created_since 1000 7) (calls_table (loaded_world three_calls)) = three_calls \<and>
   filter (created_since 1000 30) (calls_table (loaded_world three_calls)) = three_calls \<and>
   usd (today (get_costs 1000 (loaded_world three_calls))) = 6 / 10 \<and>
   inr (today (get_costs 1000 (loaded_world three_calls))) = 498 / 10 \<and>
   usd (week (get_costs 1000 (loaded_world three_calls))) = 6 / 10 \<and>
   usd (month (get_costs 1000 (loaded_world three_calls))) = 6 / 10 \<and>
   usd (totals (get_costs 1000 (loaded_world three_calls))) = 6 / 10 \<and>
   inr (totals (get_costs 1000 (loaded_world three_calls))) = 498 / 10"
proof -
  have r: "stored_rounded (billed_call 1 10 (1 / 10) (83 / 10))"
      "stored_rounded (billed_call 2 20 (2 / 10) (166 / 10))"
      "stored_rounded (billed_call 3 30 (3 / 10) (249 / 10))"
    by (simp_all add: stored_rounded_def billed_call_fields round_eval)
  have f: "filter (created_today 1000) (calls_table (loaded_world three_calls)) = three_calls"
      "filter (created_since 1000 7) (calls_table (loaded_world three_calls)) = three_calls"
      "filter (created_since 1000 30) (calls_table (loaded_world three_calls)) = three_calls"
      "calls_table (loaded_world three_calls) = three_calls"
    by (simp_all add: loaded_world_def three_calls_def created_today_def created_since_def
        sql_date_def billed_call_fields)
  show ?thesis
    using window_total_is_sum [OF r, of 1000 "loaded_world three_calls"] r f
    by (simp add: three_calls_def billed_call_fields)
qed

section \<open>Negative durations\<close>




end
